theory Spec2Isabelle
  imports Complex_Main "HOL-Library.Log_Nat"
begin

section \<open>JavaScript numbers\<close>

text \<open>
  A JavaScript \<open>number\<close> is NaN, one of the two infinities, or a finite double. A finite
  double is represented by the real it denotes; the sign of zero is not represented
  (\<open>-0 === 0\<close> holds in JavaScript, and no divisor of the code below can be zero).
  Comparisons of doubles are exact, and every threshold used by the classifier (0, 1, 2,
  3, 5, 1.5 and the double nearest to 0.8, which lies above 0.8) separates the doubles
  exactly as the real constant does. A sum is rounded to the nearest double, as IEEE 754
  prescribes. A quotient and a parsed literal stand as the exact value that JavaScript
  rounds: what is stated of them below is their sign and what they are the quotient or
  the literal of.
\<close>

datatype number = NaN | PosInf | NegInf | Fin real

subsection \<open>Rounding to the nearest double\<close>

text \<open>\<open>pow2 e\<close> is 2 to the power \<open>e\<close>, for an integer \<open>e\<close> of either sign.\<close>

definition pow2 :: "int \<Rightarrow> real" where
  "pow2 e = (if 0 \<le> e then 2 ^ nat e else 1 / 2 ^ nat (- e))"

text \<open>
  For \<open>x > 0\<close>, the exponent of the binade of \<open>x\<close>: the integer \<open>k\<close> with
  \<open>2^k \<le> x < 2^(k+1)\<close>. \<open>bitlen n\<close> is the number of binary digits of \<open>n\<close>.
\<close>

definition ilog2 :: "real \<Rightarrow> int" where
  "ilog2 x = (if 1 \<le> x then bitlen \<lfloor>x\<rfloor> - 1 else - bitlen (\<lceil>1 / x\<rceil> - 1))"

text \<open>The nearest integer, the even one of the two when \<open>y\<close> lies half way.\<close>

definition round_half_even :: "real \<Rightarrow> int" where
  "round_half_even y =
     (let f = \<lfloor>y\<rfloor>; d = y - of_int f
      in if d < 1 / 2 then f else if 1 / 2 < d then f + 1 else if even f then f else f + 1)"

text \<open>
  The double nearest to a real, ties to even (binary64: 53 significant bits, least
  quantum \<open>2^-1074\<close>, overflow to an infinity from \<open>2^1024\<close> on).
\<close>

definition round_double :: "real \<Rightarrow> number" where
  "round_double x =
     (if x = 0 then Fin 0
      else
        (let e = max (ilog2 \<bar>x\<bar> - 52) (- 1074);
             r = of_int (round_half_even (x / pow2 e)) * pow2 e
         in if pow2 1024 \<le> \<bar>r\<bar> then (if 0 < x then PosInf else NegInf) else Fin r))"

subsection \<open>Comparison and arithmetic\<close>

text \<open>\<open>a < b\<close>: false as soon as one side is NaN.\<close>

fun js_lt :: "number \<Rightarrow> number \<Rightarrow> bool" where
  "js_lt NaN b = False"
| "js_lt a NaN = False"
| "js_lt (Fin a) (Fin b) = (a < b)"
| "js_lt (Fin a) PosInf = True"
| "js_lt (Fin a) NegInf = False"
| "js_lt NegInf NegInf = False"
| "js_lt NegInf b = True"
| "js_lt PosInf b = False"

definition js_gt :: "number \<Rightarrow> number \<Rightarrow> bool" where
  "js_gt a b = js_lt b a"

text \<open>\<open>a <= b\<close>: false as soon as one side is NaN, otherwise the negation of \<open>b < a\<close>.\<close>

definition js_le :: "number \<Rightarrow> number \<Rightarrow> bool" where
  "js_le a b = (a \<noteq> NaN \<and> b \<noteq> NaN \<and> \<not> js_lt b a)"

definition js_ge :: "number \<Rightarrow> number \<Rightarrow> bool" where
  "js_ge a b = js_le b a"

text \<open>\<open>a === b\<close> on numbers: NaN is not equal to itself.\<close>

definition js_seq :: "number \<Rightarrow> number \<Rightarrow> bool" where
  "js_seq a b = (a \<noteq> NaN \<and> b \<noteq> NaN \<and> a = b)"

text \<open>\<open>a + b\<close>: the sum of two finite numbers is rounded to the nearest double.\<close>

fun js_add :: "number \<Rightarrow> number \<Rightarrow> number" where
  "js_add NaN b = NaN"
| "js_add a NaN = NaN"
| "js_add (Fin a) (Fin b) = round_double (a + b)"
| "js_add (Fin a) b = b"
| "js_add a (Fin b) = a"
| "js_add PosInf PosInf = PosInf"
| "js_add NegInf NegInf = NegInf"
| "js_add PosInf NegInf = NaN"
| "js_add NegInf PosInf = NaN"

text \<open>\<open>a / b\<close>, the exact quotient. A zero divisor is read as \<open>+0\<close>.\<close>

fun js_div :: "number \<Rightarrow> number \<Rightarrow> number" where
  "js_div NaN b = NaN"
| "js_div a NaN = NaN"
| "js_div (Fin a) (Fin b) =
     (if b \<noteq> 0 then Fin (a / b)
      else if a = 0 then NaN else if 0 < a then PosInf else NegInf)"
| "js_div (Fin a) b = Fin 0"
| "js_div PosInf (Fin b) = (if 0 \<le> b then PosInf else NegInf)"
| "js_div NegInf (Fin b) = (if 0 \<le> b then NegInf else PosInf)"
| "js_div a b = NaN"

text \<open>Truthiness of a number: \<open>0\<close> and NaN are falsy. \<open>x || 0\<close> on a number \<open>x\<close>.\<close>

definition js_truthy :: "number \<Rightarrow> bool" where
  "js_truthy x = (x \<noteq> NaN \<and> x \<noteq> Fin 0)"

definition js_or_zero :: "number \<Rightarrow> number" where
  "js_or_zero x = (if js_truthy x then x else Fin 0)"

section \<open>Strings, \<open>parseInt\<close> and \<open>parseFloat\<close>\<close>

text \<open>
  A JavaScript string stands as the UTF-8 bytes of its text, a list of 8-bit characters.
  A value that the payload may leave out is an option, and \<open>x || d\<close> on such a value
  takes the default when the value is absent or the empty string. The parsers give the
  exact value of the literal they read: its rounding to a double, and the overflow of a
  huge literal to \<open>Infinity\<close>, are not represented.
\<close>

definition str_or :: "string option \<Rightarrow> string \<Rightarrow> string" where
  "str_or x d = (case x of None \<Rightarrow> d | Some s \<Rightarrow> if s = [] then d else s)"

text \<open>
  The white space that \<open>parseInt\<close>, \<open>parseFloat\<close> and \<open>trim\<close> skip is ECMAScript's
  WhiteSpace and LineTerminator. Six of these characters are ASCII: tab, line feed,
  vertical tab, form feed, carriage return and space. U+00A0 is the two bytes \<open>C2 A0\<close>.
  The others are three bytes each: U+1680, U+2000 to U+200A, U+2028, U+2029, U+202F,
  U+205F, U+3000 and U+FEFF.
\<close>

definition is_ascii_ws :: "char \<Rightarrow> bool" where
  "is_ascii_ws c = (c \<in> set [CHR 0x09, CHR 0x0A, CHR 0x0B, CHR 0x0C, CHR 0x0D, CHR '' ''])"

definition ws3 :: "string list" where
  "ws3 =
     [[CHR 0xE1, CHR 0x9A, CHR 0x80],
      [CHR 0xE2, CHR 0x80, CHR 0x80], [CHR 0xE2, CHR 0x80, CHR 0x81],
      [CHR 0xE2, CHR 0x80, CHR 0x82], [CHR 0xE2, CHR 0x80, CHR 0x83],
      [CHR 0xE2, CHR 0x80, CHR 0x84], [CHR 0xE2, CHR 0x80, CHR 0x85],
      [CHR 0xE2, CHR 0x80, CHR 0x86], [CHR 0xE2, CHR 0x80, CHR 0x87],
      [CHR 0xE2, CHR 0x80, CHR 0x88], [CHR 0xE2, CHR 0x80, CHR 0x89],
      [CHR 0xE2, CHR 0x80, CHR 0x8A],
      [CHR 0xE2, CHR 0x80, CHR 0xA8], [CHR 0xE2, CHR 0x80, CHR 0xA9],
      [CHR 0xE2, CHR 0x80, CHR 0xAF],
      [CHR 0xE2, CHR 0x81, CHR 0x9F],
      [CHR 0xE3, CHR 0x80, CHR 0x80],
      [CHR 0xEF, CHR 0xBB, CHR 0xBF]]"

text \<open>The string without its leading white space.\<close>

fun skip_ws :: "string \<Rightarrow> string" where
  "skip_ws [] = []"
| "skip_ws (c # cs) =
     (if is_ascii_ws c then skip_ws cs
      else if c = CHR 0xC2 then
        (case cs of
           [] \<Rightarrow> c # cs
         | d # ds \<Rightarrow> if d = CHR 0xA0 then skip_ws ds else c # cs)
      else
        (case cs of
           d # e # es \<Rightarrow> if [c, d, e] \<in> set ws3 then skip_ws es else c # cs
         | _ \<Rightarrow> c # cs))"

definition is_digit :: "char \<Rightarrow> bool" where
  "is_digit c = (c \<in> set ''0123456789'')"

definition is_hex_digit :: "char \<Rightarrow> bool" where
  "is_hex_digit c = (c \<in> set ''0123456789abcdefABCDEF'')"

definition digit_val :: "char \<Rightarrow> nat" where
  "digit_val c =
     (if c \<in> set ''0123456789'' then of_char c - 48
      else if c \<in> set ''abcdef'' then of_char c - 87
      else of_char c - 55)"

definition digits_val :: "nat \<Rightarrow> string \<Rightarrow> nat" where
  "digits_val R ds = foldl (\<lambda>v c. R * v + digit_val c) 0 ds"

text \<open>
  \<open>parseInt(string)\<close> without a radix, after ECMAScript: skip leading white space, read a
  sign, read \<open>0x\<close> or \<open>0X\<close> as the mark of radix 16, take the longest run of digits of the
  radix, and give NaN when that run is empty.
\<close>

definition parseInt :: "string \<Rightarrow> number" where
  "parseInt inputString =
     (let S = skip_ws inputString;
          sign = (if S \<noteq> [] \<and> hd S = CHR ''-'' then - 1 else 1 :: real);
          S1 = (if S \<noteq> [] \<and> (hd S = CHR ''+'' \<or> hd S = CHR ''-'') then tl S else S);
          hex = (take 2 S1 = ''0x'' \<or> take 2 S1 = ''0X'');
          S2 = (if hex then drop 2 S1 else S1);
          Z = takeWhile (if hex then is_hex_digit else is_digit) S2
      in if Z = [] then NaN else Fin (sign * real (digits_val (if hex then 16 else 10) Z)))"

text \<open>The exponent part \<open>e\<close>, sign, digits that may follow a decimal literal; 0 when there is none.\<close>

definition exponent_part :: "string \<Rightarrow> int" where
  "exponent_part rest =
     (if rest \<noteq> [] \<and> (hd rest = CHR ''e'' \<or> hd rest = CHR ''E'') then
        (let t = tl rest;
             neg = (t \<noteq> [] \<and> hd t = CHR ''-'');
             t1 = (if t \<noteq> [] \<and> (hd t = CHR ''+'' \<or> hd t = CHR ''-'') then tl t else t);
             ds = takeWhile is_digit t1
         in if ds = [] then 0
            else if neg then - int (digits_val 10 ds) else int (digits_val 10 ds))
      else 0)"

definition scale10 :: "real \<Rightarrow> int \<Rightarrow> real" where
  "scale10 m e = (if 0 \<le> e then m * 10 ^ nat e else m / 10 ^ nat (- e))"

text \<open>
  \<open>parseFloat(string)\<close>, after ECMAScript: skip leading white space and give the value of
  the longest prefix that is a decimal literal (sign, \<open>Infinity\<close> or digits with an
  optional fraction and exponent), NaN when no prefix is one.
\<close>

definition parseFloat :: "string \<Rightarrow> number" where
  "parseFloat inputString =
     (let trimmed = skip_ws inputString;
          neg = (trimmed \<noteq> [] \<and> hd trimmed = CHR ''-'');
          u = (if trimmed \<noteq> [] \<and> (hd trimmed = CHR ''+'' \<or> hd trimmed = CHR ''-'')
               then tl trimmed else trimmed)
      in if take 8 u = ''Infinity'' then (if neg then NegInf else PosInf)
         else
           (let ip = takeWhile is_digit u;
                r1 = dropWhile is_digit u;
                dot = (r1 \<noteq> [] \<and> hd r1 = CHR ''.'');
                fp = (if dot then takeWhile is_digit (tl r1) else []);
                r2 = (if dot then dropWhile is_digit (tl r1) else r1)
            in if ip = [] \<and> fp = [] then NaN
               else
                 (let m = real (digits_val 10 ip) + real (digits_val 10 fp) / 10 ^ length fp;
                      v = scale10 m (exponent_part r2)
                  in Fin (if neg then - v else v))))"

section \<open>The campaign record and its health\<close>

text \<open>\<open>interface Campaign\<close> of the dashboard.\<close>

record Campaign =
  name :: string
  status :: string
  spend :: number
  impressions :: number
  ctr :: number
  frequency :: number
  purchases :: number
  addToCart :: number
  initiateCheckout :: number
  revenue :: number
  roas :: number

datatype HealthState = Green | Yellow | Red | Gray

text \<open>\<open>getCampaignHealth\<close>: four statements, the first whose condition holds returns.\<close>

definition getCampaignHealth :: "Campaign \<Rightarrow> HealthState" where
  "getCampaignHealth c =
     (if js_seq (spend c) (Fin 0) \<and> js_seq (impressions c) (Fin 0) then Gray
      else if js_ge (roas c) (Fin 2) \<and> js_ge (ctr c) (Fin 1.5) \<and> js_le (frequency c) (Fin 3)
        then Green
      else if js_lt (roas c) (Fin 1) \<or> js_lt (ctr c) (Fin 0.8) \<or> js_gt (frequency c) (Fin 5)
        then Red
      else Yellow)"

subsection \<open>The classifier as the specification words it\<close>

text \<open>
  The specification describes the classifier as an ordered chain of rules, evaluated from
  the top, the first rule whose condition holds giving the state, and a default state
  when none holds. \<open>classify_spec\<close> is that chain, written as data.
\<close>

fun first_match :: "(('a \<Rightarrow> bool) \<times> 'b) list \<Rightarrow> 'b \<Rightarrow> 'a \<Rightarrow> 'b" where
  "first_match [] d m = d"
| "first_match ((p, r) # rules) d m = (if p m then r else first_match rules d m)"

definition classify_rules :: "((Campaign \<Rightarrow> bool) \<times> HealthState) list" where
  "classify_rules =
     [(\<lambda>m. js_seq (spend m) (Fin 0) \<and> js_seq (impressions m) (Fin 0), Gray),
      (\<lambda>m. js_ge (roas m) (Fin 2) \<and> js_ge (ctr m) (Fin 1.5) \<and> js_le (frequency m) (Fin 3), Green),
      (\<lambda>m. js_lt (roas m) (Fin 1) \<or> js_lt (ctr m) (Fin 0.8) \<or> js_gt (frequency m) (Fin 5), Red)]"

definition classify_spec :: "Campaign \<Rightarrow> HealthState" where
  "classify_spec m = first_match classify_rules Yellow m"

section \<open>The campaigns route: action extraction and normalization\<close>

text \<open>\<open>MetaAction\<close> and \<open>MetaActionValue\<close>: an action type and its value, a number written as text.\<close>

record MetaAction =
  action_type :: string
  action_value :: "string option"

text \<open>One row of insights as the platform returns it; every field may be missing.\<close>

record MetaInsights =
  ins_campaign_name :: "string option"
  ins_spend :: "string option"
  ins_impressions :: "string option"
  ins_ctr :: "string option"
  ins_frequency :: "string option"
  ins_actions :: "MetaAction list option"
  ins_action_values :: "MetaAction list option"

text \<open>The campaign as listed by the platform (\<open>fields=id,name,status\<close>).\<close>

record MetaCampaign =
  camp_id :: string
  camp_name :: string
  camp_status :: string

definition purchase_types :: "string list" where
  "purchase_types = [''omni_purchase'', ''purchase'', ''offsite_conversion.fb_pixel_purchase'']"

definition add_to_cart_types :: "string list" where
  "add_to_cart_types =
     [''omni_add_to_cart'', ''add_to_cart'', ''offsite_conversion.fb_pixel_add_to_cart'']"

definition initiate_checkout_types :: "string list" where
  "initiate_checkout_types =
     [''omni_initiated_checkout'', ''initiate_checkout'',
      ''offsite_conversion.fb_pixel_initiate_checkout'']"

text \<open>The \<open>for (const action of actions)\<close> loops: the first action whose type is listed returns.\<close>

fun extractPurchases_loop :: "MetaAction list \<Rightarrow> number" where
  "extractPurchases_loop [] = Fin 0"
| "extractPurchases_loop (action # rest) =
     (if action_type action \<in> set purchase_types
      then parseInt (str_or (action_value action) ''0'')
      else extractPurchases_loop rest)"

definition extractPurchases :: "MetaAction list option \<Rightarrow> number" where
  "extractPurchases actions =
     (case actions of None \<Rightarrow> Fin 0 | Some acts \<Rightarrow> extractPurchases_loop acts)"

fun extractAction_loop :: "MetaAction list \<Rightarrow> string list \<Rightarrow> number" where
  "extractAction_loop [] actionTypes = Fin 0"
| "extractAction_loop (action # rest) actionTypes =
     (if action_type action \<in> set actionTypes
      then parseInt (str_or (action_value action) ''0'')
      else extractAction_loop rest actionTypes)"

definition extractAction :: "MetaAction list option \<Rightarrow> string list \<Rightarrow> number" where
  "extractAction actions actionTypes =
     (case actions of None \<Rightarrow> Fin 0 | Some acts \<Rightarrow> extractAction_loop acts actionTypes)"

fun extractRevenue_loop :: "MetaAction list \<Rightarrow> number" where
  "extractRevenue_loop [] = Fin 0"
| "extractRevenue_loop (action # rest) =
     (if action_type action \<in> set purchase_types
      then parseFloat (str_or (action_value action) ''0'')
      else extractRevenue_loop rest)"

definition extractRevenue :: "MetaAction list option \<Rightarrow> number" where
  "extractRevenue actionValues =
     (case actionValues of None \<Rightarrow> Fin 0 | Some acts \<Rightarrow> extractRevenue_loop acts)"

text \<open>
  What the request for a campaign's insights gives: the request or the decoding of its
  answer throws, or the answer is an object whose \<open>data\<close> is missing or a list of rows.
\<close>

datatype insights_fetch = FetchThrows | InsightsData "MetaInsights list option"

text \<open>\<open>insightsData.data?.[0]\<close>.\<close>

definition first_row :: "MetaInsights list option \<Rightarrow> MetaInsights option" where
  "first_row d = (case d of None \<Rightarrow> None | Some [] \<Rightarrow> None | Some (r # rs) \<Rightarrow> Some r)"

text \<open>
  The body of the \<open>try\<close> block of the function mapped over the campaigns: \<open>Inl\<close> is a thrown
  exception, \<open>Inr\<close> the record returned.
\<close>

definition campaignInsights_try :: "MetaCampaign \<Rightarrow> insights_fetch \<Rightarrow> unit + Campaign" where
  "campaignInsights_try campaign fetched =
     (case fetched of
        FetchThrows \<Rightarrow> Inl ()
      | InsightsData d \<Rightarrow>
          (case first_row d of
             Some insights \<Rightarrow>
               (let spend = parseFloat (str_or (ins_spend insights) ''0'');
                    revenue = extractRevenue (ins_action_values insights);
                    roas = (if js_gt spend (Fin 0) then js_div revenue spend else Fin 0)
                in Inr \<lparr>name = str_or (ins_campaign_name insights) (camp_name campaign),
                        status = camp_status campaign,
                        spend = spend,
                        impressions = parseInt (str_or (ins_impressions insights) ''0''),
                        ctr = parseFloat (str_or (ins_ctr insights) ''0''),
                        frequency = parseFloat (str_or (ins_frequency insights) ''0''),
                        purchases = extractPurchases (ins_actions insights),
                        addToCart = extractAction (ins_actions insights) add_to_cart_types,
                        initiateCheckout =
                          extractAction (ins_actions insights) initiate_checkout_types,
                        revenue = revenue,
                        roas = roas\<rparr>)
           | None \<Rightarrow>
               Inr \<lparr>name = camp_name campaign, status = camp_status campaign,
                    spend = Fin 0, impressions = Fin 0, ctr = Fin 0, frequency = Fin 0,
                    purchases = Fin 0, addToCart = Fin 0, initiateCheckout = Fin 0,
                    revenue = Fin 0, roas = Fin 0\<rparr>))"

text \<open>The whole function, with its \<open>catch\<close>: normalization of one campaign.\<close>

definition campaignWithInsights :: "MetaCampaign \<Rightarrow> insights_fetch \<Rightarrow> Campaign" where
  "campaignWithInsights campaign fetched =
     (case campaignInsights_try campaign fetched of
        Inr c \<Rightarrow> c
      | Inl e \<Rightarrow>
          \<lparr>name = camp_name campaign, status = camp_status campaign,
           spend = Fin 0, impressions = Fin 0, ctr = Fin 0, frequency = Fin 0,
           purchases = Fin 0, addToCart = Fin 0, initiateCheckout = Fin 0,
           revenue = Fin 0, roas = Fin 0\<rparr>)"

section \<open>The dashboard: status filter and account totals\<close>

text \<open>\<open>type StatusFilter = 'ALL' | 'ACTIVE' | 'PAUSED' | 'ARCHIVED'\<close>, and the string each one is.\<close>

datatype StatusFilter = F_ALL | F_ACTIVE | F_PAUSED | F_ARCHIVED

fun filter_string :: "StatusFilter \<Rightarrow> string" where
  "filter_string F_ALL = ''ALL''"
| "filter_string F_ACTIVE = ''ACTIVE''"
| "filter_string F_PAUSED = ''PAUSED''"
| "filter_string F_ARCHIVED = ''ARCHIVED''"

definition filteredCampaigns :: "StatusFilter \<Rightarrow> Campaign list \<Rightarrow> Campaign list" where
  "filteredCampaigns statusFilter campaigns =
     (if statusFilter = F_ALL then campaigns
      else filter (\<lambda>c. status c = filter_string statusFilter) campaigns)"

record Totals =
  total_spend :: number
  total_impressions :: number
  total_revenue :: number
  total_purchases :: number
  total_addToCart :: number
  total_initiateCheckout :: number

text \<open>\<open>totals\<close>: the \<open>reduce\<close> over the filtered campaigns, from the all-zero accumulator.\<close>

definition totals :: "Campaign list \<Rightarrow> Totals" where
  "totals cs =
     foldl (\<lambda>acc c.
        \<lparr>total_spend = js_add (total_spend acc) (spend c),
         total_impressions = js_add (total_impressions acc) (impressions c),
         total_revenue = js_add (total_revenue acc) (revenue c),
         total_purchases = js_add (total_purchases acc) (purchases c),
         total_addToCart = js_add (total_addToCart acc) (js_or_zero (addToCart c)),
         total_initiateCheckout =
           js_add (total_initiateCheckout acc) (js_or_zero (initiateCheckout c))\<rparr>)
       \<lparr>total_spend = Fin 0, total_impressions = Fin 0, total_revenue = Fin 0,
        total_purchases = Fin 0, total_addToCart = Fin 0, total_initiateCheckout = Fin 0\<rparr>
       cs"

text \<open>The account totals of the records that pass a status filter.\<close>

definition aggregate :: "Campaign list \<Rightarrow> StatusFilter \<Rightarrow> Totals" where
  "aggregate records statusFilter = totals (filteredCampaigns statusFilter records)"

section \<open>The advisory routes: model fallback\<close>

text \<open>A thrown value: its \<open>name\<close> and its \<open>message\<close>, which may be missing.\<close>

datatype js_error = JsError (err_name: string) (err_message: "string option")

text \<open>
  How a language-model backend behaves on one request, as the routes can observe it:
  the call \<open>streamText(...)\<close> throws at once, or it returns a stream that delivers text
  chunks and then either ends or fails. Awaiting the whole text of a stream (\<open>await
  result.text\<close>) gives the chunks joined when the stream ends, and throws the stream's
  error when it fails. The prompt built from the campaigns is the same for every model of
  a request, so a request's backends are a function of the model identifier alone.
\<close>

datatype stream_end = EndOk | EndError js_error

datatype backend_result = CallThrows js_error | TextStream "string list" stream_end

definition backend_fails :: "backend_result \<Rightarrow> bool" where
  "backend_fails r = (case r of CallThrows e \<Rightarrow> True | TextStream chunks e \<Rightarrow> e \<noteq> EndOk)"

datatype response =
    JsonError nat string "string option"
  | TextResponse nat string
  | StreamResponse "string list" stream_end
  | NoResponse

datatype auth = AuthThrows js_error | Anonymous | SignedIn

datatype 'a body = BodyThrows js_error | Body 'a

definition models :: "string list" where
  "models = [''gemini-3.1-pro-preview'', ''gemini-3-flash-preview'']"

text \<open>The warning sign U+26A0 U+FE0F and the accented letters, as UTF-8 bytes.\<close>

definition warning_sign :: string where
  "warning_sign = [CHR 0xE2, CHR 0x9A, CHR 0xA0, CHR 0xEF, CHR 0xB8, CHR 0x8F]"

definition gemini_error :: "js_error \<Rightarrow> string" where
  "gemini_error streamErr =
     ''# '' @ warning_sign @ '' Error de Gemini'' @ [CHR 0x0A, CHR 0x0A]
       @ str_or (err_message streamErr) ''Error desconocido''"

definition config_error :: "string \<Rightarrow> string" where
  "config_error tail =
     ''# '' @ warning_sign @ '' Error de configuraci'' @ [CHR 0xC3, CHR 0xB3] @ ''n''
       @ [CHR 0x0A, CHR 0x0A] @ ''La variable **GOOGLE_GENERATIVE_AI_API_KEY** no est''
       @ [CHR 0xC3, CHR 0xA1] @ '' configurada'' @ tail"

text \<open>
  The loop over the models of the analyze route (one-shot diagnostic): the whole text is
  awaited inside the \<open>try\<close>, so a failure of the call or of the stream reaches the \<open>catch\<close>;
  there the last model returns the error text, any other model lets the loop go on.
  \<open>NoResponse\<close> is the end of the loop without a \<open>return\<close>.
\<close>

fun analyze_loop :: "(string \<Rightarrow> backend_result) \<Rightarrow> string list \<Rightarrow> response" where
  "analyze_loop backend [] = NoResponse"
| "analyze_loop backend (modelId # rest) =
     (case backend modelId of
        TextStream chunks EndOk \<Rightarrow> TextResponse 200 (concat chunks)
      | TextStream chunks (EndError streamErr) \<Rightarrow>
          (if modelId = last models then TextResponse 200 (gemini_error streamErr)
           else analyze_loop backend rest)
      | CallThrows streamErr \<Rightarrow>
          (if modelId = last models then TextResponse 200 (gemini_error streamErr)
           else analyze_loop backend rest))"

text \<open>\<open>POST\<close> of the analyze route.\<close>

definition POST_analyze ::
  "auth \<Rightarrow> Campaign list option body \<Rightarrow> bool \<Rightarrow> (string \<Rightarrow> backend_result) \<Rightarrow> response" where
  "POST_analyze user body api_key backend =
     (case user of
        AuthThrows err \<Rightarrow>
          JsonError 500 (''Error al analizar campa'' @ [CHR 0xC3, CHR 0xB1] @ ''as'')
            (Some (str_or (err_message err) ''Unknown error''))
      | Anonymous \<Rightarrow> JsonError 401 ''No autenticado'' None
      | SignedIn \<Rightarrow>
          (case body of
             BodyThrows err \<Rightarrow>
               JsonError 500 (''Error al analizar campa'' @ [CHR 0xC3, CHR 0xB1] @ ''as'')
                 (Some (str_or (err_message err) ''Unknown error''))
           | Body campaigns \<Rightarrow>
               if campaigns = None \<or> campaigns = Some []
               then JsonError 400
                      (''No hay campa'' @ [CHR 0xC3, CHR 0xB1] @ ''as para analizar'') None
               else if \<not> api_key then TextResponse 200 (config_error '' en Vercel.'')
               else analyze_loop backend models))"

text \<open>
  The loop over the models of the chat route (conversational): the stream response is
  returned from inside the \<open>try\<close> as soon as the call has returned, without awaiting any
  chunk, so only a call that throws reaches the \<open>catch\<close>.
\<close>

fun chat_loop :: "(string \<Rightarrow> backend_result) \<Rightarrow> string list \<Rightarrow> response" where
  "chat_loop backend [] = NoResponse"
| "chat_loop backend (modelId # rest) =
     (case backend modelId of
        TextStream chunks e \<Rightarrow> StreamResponse chunks e
      | CallThrows streamErr \<Rightarrow>
          (if modelId = last models then TextResponse 200 (gemini_error streamErr)
           else chat_loop backend rest))"

datatype chat_role = User | Assistant

text \<open>\<open>POST\<close> of the chat route; \<open>messages\<close> is \<open>None\<close> when it is missing or not an array.\<close>

definition POST_chat ::
  "auth \<Rightarrow> (chat_role \<times> string) list option body \<Rightarrow> bool \<Rightarrow> (string \<Rightarrow> backend_result)
     \<Rightarrow> response" where
  "POST_chat user body api_key backend =
     (case user of
        AuthThrows err \<Rightarrow>
          JsonError 500 ''Error en el chat'' (Some (str_or (err_message err) ''Unknown error''))
      | Anonymous \<Rightarrow> JsonError 401 ''No autenticado'' None
      | SignedIn \<Rightarrow>
          (case body of
             BodyThrows err \<Rightarrow>
               JsonError 500 ''Error en el chat''
                 (Some (str_or (err_message err) ''Unknown error''))
           | Body messages \<Rightarrow>
               if messages = None \<or> messages = Some []
               then JsonError 400 ''No hay mensajes'' None
               else if \<not> api_key then TextResponse 200 (config_error ''.'')
               else chat_loop backend models))"

section \<open>The dashboard: sending a chat message\<close>

record ChatMessage =
  msg_id :: string
  role :: chat_role
  content :: string

text \<open>The part of the component's state that \<open>sendChatMessage\<close> reads and writes.\<close>

record chat_state =
  chatMessages :: "ChatMessage list"
  chatInput :: string
  isAnalyzing :: bool
  abortRef :: bool

text \<open>
  What the awaits of \<open>sendChatMessage\<close> receive. A \<open>reader.read()\<close> gives a chunk, reports
  the end of the stream, or rejects; the list of a response body holds the results of the
  successive reads that have arrived so far. The \<open>fetch\<close> is still pending, rejects, or
  gives a response with its \<open>ok\<close> flag and its body, which may have no reader. Aborting the
  controller whose signal the \<open>fetch\<close> carries makes the pending \<open>fetch\<close> or \<open>read\<close> reject
  with an error named \<open>AbortError\<close>; the component keeps the controller in \<open>abortRef\<close>,
  here the flag that one is kept.
\<close>

datatype read_event = Chunk string | ReadDone | ReadRejects js_error

datatype fetch_outcome =
    FetchPending
  | FetchRejects js_error
  | FetchResponse bool "read_event list option"

datatype loop_exit = Waiting | Broke | Threw js_error

definition set_content :: "string \<Rightarrow> string \<Rightarrow> chat_state \<Rightarrow> chat_state" where
  "set_content assistantId text st =
     st\<lparr>chatMessages :=
          map (\<lambda>m. if msg_id m = assistantId then m\<lparr>content := text\<rparr> else m) (chatMessages st)\<rparr>"

text \<open>The \<open>while (true)\<close> loop over the reads; \<open>Waiting\<close> when the next read has not arrived.\<close>

fun read_loop :: "string \<Rightarrow> string \<Rightarrow> chat_state \<Rightarrow> read_event list \<Rightarrow> chat_state \<times> loop_exit" where
  "read_loop assistantId fullText st [] = (st, Waiting)"
| "read_loop assistantId fullText st (Chunk chunk # rest) =
     read_loop assistantId (fullText @ chunk) (set_content assistantId (fullText @ chunk) st) rest"
| "read_loop assistantId fullText st (ReadDone # rest) = (st, Broke)"
| "read_loop assistantId fullText st (ReadRejects err # rest) = (st, Threw err)"

text \<open>
  The body of the \<open>try\<close> block of \<open>sendChatMessage\<close>, from the \<open>fetch\<close> on: the state it
  leaves and how it was left.
\<close>

definition send_try :: "string \<Rightarrow> fetch_outcome \<Rightarrow> chat_state \<Rightarrow> chat_state \<times> loop_exit" where
  "send_try assistantId outcome st =
     (case outcome of
        FetchPending \<Rightarrow> (st, Waiting)
      | FetchRejects err \<Rightarrow> (st, Threw err)
      | FetchResponse ok reader \<Rightarrow>
          if \<not> ok then (st, Threw (JsError ''Error'' (Some ''Error del servidor'')))
          else
            (case reader of
               None \<Rightarrow> (st, Threw (JsError ''Error'' (Some ''No stream'')))
             | Some reads \<Rightarrow> read_loop assistantId [] st reads))"

text \<open>
  The \<open>catch\<close> and \<open>finally\<close> blocks: an error other than \<open>AbortError\<close> is written into the
  assistant's message; nothing runs while the function is still suspended.
\<close>

definition send_finish :: "string \<Rightarrow> chat_state \<times> loop_exit \<Rightarrow> chat_state" where
  "send_finish assistantId r =
     (case r of
        (st, Waiting) \<Rightarrow> st
      | (st, Broke) \<Rightarrow> st\<lparr>isAnalyzing := False, abortRef := False\<rparr>
      | (st, Threw err) \<Rightarrow>
          (if err_name err \<noteq> ''AbortError''
           then set_content assistantId
                  (''# '' @ warning_sign @ '' Error'' @ [CHR 0x0A, CHR 0x0A]
                     @ str_or (err_message err) ''Error desconocido'') st
           else st)\<lparr>isAnalyzing := False, abortRef := False\<rparr>)"

text \<open>
  \<open>sendChatMessage\<close>. The two identifiers are the texts of \<open>Date.now()\<close> and of
  \<open>Date.now() + 1\<close> at the two places that compute them. The state returned is the state
  when the function has finished, or, for \<open>Waiting\<close>, while it is suspended at an await.
\<close>

definition sendChatMessage ::
  "string \<Rightarrow> string \<Rightarrow> string \<Rightarrow> fetch_outcome \<Rightarrow> chat_state \<Rightarrow> chat_state" where
  "sendChatMessage userId assistantId userMessage outcome st =
     (if skip_ws userMessage = [] \<or> isAnalyzing st then st
      else
        (let userMsg = \<lparr>msg_id = userId, role = User, content = userMessage\<rparr>;
             newMessages = chatMessages st @ [userMsg];
             st1 = st\<lparr>chatMessages := newMessages, chatInput := [], isAnalyzing := True\<rparr>;
             st2 = st1\<lparr>chatMessages :=
                     chatMessages st1 @ [\<lparr>msg_id = assistantId, role = Assistant, content = []\<rparr>],
                   abortRef := True\<rparr>
         in send_finish assistantId (send_try assistantId outcome st2)))"

section \<open>Auxiliary notions for the statements\<close>

text \<open>The sum of a list of numbers, added from the left as \<open>reduce\<close> does.\<close>

definition sum_numbers :: "number list \<Rightarrow> number" where
  "sum_numbers xs = foldl js_add (Fin 0) xs"

text \<open>
  A count is a number that is a non-negative integer, and \<open>count_of\<close> is that integer. A
  field has an exact total over a list of records when its values are counts that add up
  to at most \<open>2^53\<close>: then every partial sum is a double, and no addition rounds.
\<close>

definition is_count :: "number \<Rightarrow> bool" where
  "is_count x = (case x of Fin r \<Rightarrow> 0 \<le> r \<and> of_int \<lfloor>r\<rfloor> = r | _ \<Rightarrow> False)"

definition count_of :: "number \<Rightarrow> nat" where
  "count_of x = (case x of Fin r \<Rightarrow> nat \<lfloor>r\<rfloor> | _ \<Rightarrow> 0)"

definition exact_total :: "(Campaign \<Rightarrow> number) \<Rightarrow> Campaign list \<Rightarrow> bool" where
  "exact_total f cs =
     (list_all (\<lambda>c. is_count (f c)) cs \<and> sum_list (map (\<lambda>c. count_of (f c)) cs) \<le> 2 ^ 53)"

text \<open>
  Three lists of records that differ in status and spend alone. The first holds one
  DELETED record. The second holds spends of \<open>2^53\<close>, 1 and 1. The third holds the doubles
  nearest to 0.1, 0.2 and 0.3, which are \<open>3602879701896397 / 2^55\<close>,
  \<open>3602879701896397 / 2^54\<close> and \<open>5404319552844595 / 2^54\<close>.
\<close>

definition spend_only :: "string \<Rightarrow> string \<Rightarrow> number \<Rightarrow> Campaign" where
  "spend_only n s x =
     \<lparr>name = n, status = s, spend = x, impressions = Fin 10, ctr = Fin 1, frequency = Fin 1,
      purchases = Fin 0, addToCart = Fin 0, initiateCheckout = Fin 0, revenue = Fin 0,
      roas = Fin 0\<rparr>"

definition records_with_deleted :: "Campaign list" where
  "records_with_deleted = [spend_only ''D'' ''DELETED'' (Fin 1)]"

definition records_large_spend :: "Campaign list" where
  "records_large_spend =
     [spend_only ''A'' ''ACTIVE'' (Fin 9007199254740992),
      spend_only ''B'' ''PAUSED'' (Fin 1),
      spend_only ''C'' ''PAUSED'' (Fin 1)]"

definition records_fractions :: "Campaign list" where
  "records_fractions =
     [spend_only ''A'' ''ACTIVE'' (Fin (3602879701896397 / 36028797018963968)),
      spend_only ''B'' ''PAUSED'' (Fin (3602879701896397 / 18014398509481984)),
      spend_only ''C'' ''PAUSED'' (Fin (5404319552844595 / 18014398509481984))]"


text \<open>
  Two backends that both fail: the first model accepts the call, delivers one chunk and
  then fails in the middle of its stream; the second throws when called.
\<close>

definition failing_backends :: "string \<Rightarrow> backend_result" where
  "failing_backends modelId =
     (if modelId = ''gemini-3.1-pro-preview''
      then TextStream [''Hola''] (EndError (JsError ''Error'' (Some ''overloaded'')))
      else CallThrows (JsError ''Error'' (Some ''quota'')))"

section \<open>Properties of the classifier\<close>

text \<open>
  Claim C1. For every campaign record the classifier returns exactly the state that the
  ordered rule chain of the specification gives (gray, then green, then red, else
  yellow), and a record whose spend and impressions are both 0 is gray whatever its other
  fields hold.
\<close>

theorem getCampaignHealth_rule_chain:
  "getCampaignHealth m = classify_spec m \<and>
   (spend m = Fin 0 \<and> impressions m = Fin 0 \<longrightarrow> getCampaignHealth m = Gray)"
  by (simp add: getCampaignHealth_def classify_spec_def classify_rules_def js_seq_def)

theorem getCampaignHealth_rule_chain_witness:
  "spend \<lparr>name = ''dormant'', status = ''PAUSED'', spend = Fin 0, impressions = Fin 0,
      ctr = Fin 9, frequency = Fin 9, purchases = Fin 4, addToCart = Fin 1,
      initiateCheckout = Fin 2, revenue = Fin 7, roas = Fin 0\<rparr> = Fin 0 \<and>
   getCampaignHealth \<lparr>name = ''dormant'', status = ''PAUSED'', spend = Fin 0, impressions = Fin 0,
      ctr = Fin 9, frequency = Fin 9, purchases = Fin 4, addToCart = Fin 1,
      initiateCheckout = Fin 2, revenue = Fin 7, roas = Fin 0\<rparr> = Gray"
proof -
  let ?m = "\<lparr>name = ''dormant'', status = ''PAUSED'', spend = Fin 0, impressions = Fin 0,
      ctr = Fin 9, frequency = Fin 9, purchases = Fin 4, addToCart = Fin 1,
      initiateCheckout = Fin 2, revenue = Fin 7, roas = Fin 0\<rparr>"
  have h: "spend ?m = Fin 0 \<and> impressions ?m = Fin 0" by simp
  with getCampaignHealth_rule_chain [of ?m] have "getCampaignHealth ?m = Gray" by blast
  with h show ?thesis by blast
qed

text \<open>The three worked examples of the specification: green, red through roas alone, gray.\<close>

lemma getCampaignHealth_examples:
  "getCampaignHealth \<lparr>name = n, status = s, spend = Fin 100, impressions = Fin 1000,
      ctr = Fin 2.0, frequency = Fin 1.5, purchases = p, addToCart = a,
      initiateCheckout = i, revenue = Fin 250, roas = Fin 2.5\<rparr> = Green"
  "getCampaignHealth \<lparr>name = n, status = s, spend = Fin 100, impressions = Fin 1000,
      ctr = Fin 2.0, frequency = Fin 1.0, purchases = p, addToCart = a,
      initiateCheckout = i, revenue = Fin 50, roas = Fin 0.5\<rparr> = Red"
  "getCampaignHealth \<lparr>name = n, status = s, spend = Fin 0, impressions = Fin 0,
      ctr = Fin 0, frequency = Fin 0, purchases = p, addToCart = a,
      initiateCheckout = i, revenue = Fin 0, roas = Fin 0\<rparr> = Gray"
  by (simp_all add: getCampaignHealth_def js_seq_def js_ge_def js_le_def js_gt_def)

text \<open>
  Claim C10. The classifier reads only spend, impressions, roas, ctr and frequency: two
  records that agree on these five fields get the same state, whatever their name,
  status, revenue, purchases, addToCart and initiateCheckout are.
\<close>

theorem getCampaignHealth_reads_five_fields:
  "spend a = spend b \<Longrightarrow> impressions a = impressions b \<Longrightarrow> roas a = roas b \<Longrightarrow>
   ctr a = ctr b \<Longrightarrow> frequency a = frequency b \<Longrightarrow>
   getCampaignHealth a = getCampaignHealth b"
  by (simp add: getCampaignHealth_def)

theorem getCampaignHealth_reads_five_fields_witness:
  "getCampaignHealth \<lparr>name = ''A'', status = ''ACTIVE'', spend = Fin 100, impressions = Fin 5000,
      ctr = Fin 2, frequency = Fin 1.5, purchases = Fin 4, addToCart = Fin 9,
      initiateCheckout = Fin 6, revenue = Fin 250, roas = Fin 2.5\<rparr>
   = getCampaignHealth \<lparr>name = ''B'', status = ''PAUSED'', spend = Fin 100, impressions = Fin 5000,
      ctr = Fin 2, frequency = Fin 1.5, purchases = Fin 0, addToCart = Fin 1,
      initiateCheckout = Fin 2, revenue = Fin 3, roas = Fin 2.5\<rparr>"
  using getCampaignHealth_reads_five_fields
    [of "\<lparr>name = ''A'', status = ''ACTIVE'', spend = Fin 100, impressions = Fin 5000,
      ctr = Fin 2, frequency = Fin 1.5, purchases = Fin 4, addToCart = Fin 9,
      initiateCheckout = Fin 6, revenue = Fin 250, roas = Fin 2.5\<rparr>"
     "\<lparr>name = ''B'', status = ''PAUSED'', spend = Fin 100, impressions = Fin 5000,
      ctr = Fin 2, frequency = Fin 1.5, purchases = Fin 0, addToCart = Fin 1,
      initiateCheckout = Fin 2, revenue = Fin 3, roas = Fin 2.5\<rparr>"]
  by simp

section \<open>Properties of action extraction\<close>

lemmas parse_defs = parseInt_def parseFloat_def is_ascii_ws_def ws3_def is_digit_def is_hex_digit_def
  digit_val_def digits_val_def exponent_part_def scale10_def str_or_def






text \<open>White space outside ASCII is skipped too: a no-break space before \<open>12\<close>.\<close>

lemma parse_after_no_break_space:
  "parseInt ([CHR 0xC2, CHR 0xA0] @ ''12'') = Fin 12"
  "parseFloat ([CHR 0xE2, CHR 0x80, CHR 0xA8] @ ''1.5'') = Fin 1.5"
  by (simp_all add: parse_defs)


lemma extractAction_loop_first:
  "\<forall>x\<in>set pre. action_type x \<notin> set tys \<Longrightarrow> action_type a \<in> set tys \<Longrightarrow>
   extractAction_loop (pre @ a # post) tys = parseInt (str_or (action_value a) ''0'')"
  by (induction pre) auto

lemma extractAction_loop_set:
  "set tys' = set tys \<Longrightarrow> extractAction_loop acts tys' = extractAction_loop acts tys"
  by (induction acts) auto

lemma extractPurchases_loop_eq:
  "extractPurchases_loop acts = extractAction_loop acts purchase_types"
  by (induction acts) auto

lemma extractRevenue_loop_first:
  "\<forall>x\<in>set pre. action_type x \<notin> set purchase_types \<Longrightarrow>
   action_type a \<in> set purchase_types \<Longrightarrow>
   extractRevenue_loop (pre @ a # post) = parseFloat (str_or (action_value a) ''0'')"
  by (induction pre) auto



text \<open>
  Claim C6, as the code has it. When the action list holds two actions whose types are
  two different members of the list of action types, and no earlier action has a listed
  type, \<open>extractAction\<close> returns the value of the one that stands first in the action
  list. The order of the action types plays no part: two lists of action types with the
  same members give the same result on every action list. \<open>extractPurchases\<close> is
  \<open>extractAction\<close> with the purchase types.
\<close>

theorem extractAction_list_order_wins:
  assumes "action_type a \<in> set tys" and "action_type b \<in> set tys"
    and "action_type a \<noteq> action_type b"
    and "\<forall>x\<in>set pre. action_type x \<notin> set tys"
  shows "extractAction (Some (pre @ a # mid @ b # post)) tys
           = parseInt (str_or (action_value a) ''0'') \<and>
         (set tys' = set tys \<longrightarrow> extractAction acts tys' = extractAction acts tys) \<and>
         extractPurchases acts = extractAction acts purchase_types"
proof (intro conjI impI)
  show "extractAction (Some (pre @ a # mid @ b # post)) tys
           = parseInt (str_or (action_value a) ''0'')"
    using assms(1,4) by (simp add: extractAction_def extractAction_loop_first)
  show "extractAction acts tys' = extractAction acts tys" if s: "set tys' = set tys"
  proof (cases acts)
    case None
    then show ?thesis by (simp add: extractAction_def)
  next
    case (Some xs)
    with extractAction_loop_set [OF s, of xs] show ?thesis by (simp add: extractAction_def)
  qed
  show "extractPurchases acts = extractAction acts purchase_types"
    by (cases acts) (simp_all add: extractAction_def extractPurchases_def extractPurchases_loop_eq)
qed

theorem extractAction_list_order_wins_witness:
  "extractAction
      (Some ([] @ \<lparr>action_type = ''initiate_checkout'', action_value = Some ''4''\<rparr> # []
         @ \<lparr>action_type = ''omni_initiated_checkout'', action_value = Some ''6''\<rparr> # []))
      [''omni_initiated_checkout'', ''initiate_checkout'']
   = parseInt ''4''"
proof -
  let ?tys = "[''omni_initiated_checkout'', ''initiate_checkout'']"
  let ?a = "\<lparr>action_type = ''initiate_checkout'', action_value = Some ''4''\<rparr>"
  let ?b = "\<lparr>action_type = ''omni_initiated_checkout'', action_value = Some ''6''\<rparr>"
  have h1: "action_type ?a \<in> set ?tys" by simp
  have h2: "action_type ?b \<in> set ?tys" by simp
  have h3: "action_type ?a \<noteq> action_type ?b" by simp
  have h4: "\<forall>x\<in>set []. action_type x \<notin> set ?tys" by simp
  have v: "str_or (action_value ?a) ''0'' = ''4''" by (simp add: str_or_def)
  note r = extractAction_list_order_wins [OF h1 h2 h3 h4, where mid = "[]" and post = "[]",
      THEN conjunct1]
  have "extractAction (Some ([] @ ?a # [] @ ?b # [])) ?tys
      = parseInt (str_or (action_value ?a) ''0'')" by (rule r)
  with v show ?thesis by simp
qed

text \<open>
  Claim C6, as the specification states it, fails: with the purchase types, of which
  \<open>omni_purchase\<close> is the first and \<open>purchase\<close> the second, and the action list holding
  \<open>purchase\<close> of value 5 before \<open>omni_purchase\<close> of value 7, the result is 5, the value of
  the action whose type comes later in the list of action types.
\<close>

theorem extractAction_synonym_order_counterexample:
  "extractAction
      (Some [\<lparr>action_type = ''purchase'', action_value = Some ''5''\<rparr>,
             \<lparr>action_type = ''omni_purchase'', action_value = Some ''7''\<rparr>])
      [''omni_purchase'', ''purchase'', ''offsite_conversion.fb_pixel_purchase''] = Fin 5 \<and>
   extractPurchases
      (Some [\<lparr>action_type = ''purchase'', action_value = Some ''5''\<rparr>,
             \<lparr>action_type = ''omni_purchase'', action_value = Some ''7''\<rparr>]) = Fin 5"
  by (simp add: extractAction_def extractPurchases_def purchase_types_def parse_defs)

section \<open>Properties of normalization\<close>

text \<open>
  Claim C3. For every campaign descriptor, when the platform returns no row of insights
  (no \<open>data\<close>, or an empty list of rows), normalization returns a record without raising:
  its name and status are the descriptor's and its nine numeric fields are 0. The same
  record results when the request throws.
\<close>

theorem campaignWithInsights_absent:
  "campaignInsights_try campaign (InsightsData None) =
     Inr \<lparr>name = camp_name campaign, status = camp_status campaign,
      spend = Fin 0, impressions = Fin 0, ctr = Fin 0, frequency = Fin 0,
      purchases = Fin 0, addToCart = Fin 0, initiateCheckout = Fin 0,
      revenue = Fin 0, roas = Fin 0\<rparr> \<and>
   campaignInsights_try campaign (InsightsData (Some [])) =
     Inr \<lparr>name = camp_name campaign, status = camp_status campaign,
      spend = Fin 0, impressions = Fin 0, ctr = Fin 0, frequency = Fin 0,
      purchases = Fin 0, addToCart = Fin 0, initiateCheckout = Fin 0,
      revenue = Fin 0, roas = Fin 0\<rparr> \<and>
   campaignWithInsights campaign (InsightsData None) =
     \<lparr>name = camp_name campaign, status = camp_status campaign,
      spend = Fin 0, impressions = Fin 0, ctr = Fin 0, frequency = Fin 0,
      purchases = Fin 0, addToCart = Fin 0, initiateCheckout = Fin 0,
      revenue = Fin 0, roas = Fin 0\<rparr> \<and>
   campaignWithInsights campaign (InsightsData (Some [])) =
     \<lparr>name = camp_name campaign, status = camp_status campaign,
      spend = Fin 0, impressions = Fin 0, ctr = Fin 0, frequency = Fin 0,
      purchases = Fin 0, addToCart = Fin 0, initiateCheckout = Fin 0,
      revenue = Fin 0, roas = Fin 0\<rparr> \<and>
   campaignWithInsights campaign FetchThrows =
     \<lparr>name = camp_name campaign, status = camp_status campaign,
      spend = Fin 0, impressions = Fin 0, ctr = Fin 0, frequency = Fin 0,
      purchases = Fin 0, addToCart = Fin 0, initiateCheckout = Fin 0,
      revenue = Fin 0, roas = Fin 0\<rparr>"
  by (simp add: campaignWithInsights_def campaignInsights_try_def first_row_def)

lemma js_div_not_negative:
  "js_gt s (Fin 0) \<Longrightarrow> \<not> js_lt r (Fin 0) \<Longrightarrow> \<not> js_lt (js_div r s) (Fin 0)"
  by (cases r; cases s) (auto simp: js_gt_def divide_less_0_iff)

text \<open>
  Claim C2, as the code has it. In every record produced by normalization, roas is revenue
  divided by spend when spend is greater than 0, and is 0 otherwise (spend 0, negative or
  NaN), so that no division by zero takes place; and roas is not negative whenever the
  record's revenue is not negative.
\<close>

theorem campaignWithInsights_roas:
  "(js_gt (spend (campaignWithInsights campaign fetched)) (Fin 0) \<longrightarrow>
      roas (campaignWithInsights campaign fetched)
        = js_div (revenue (campaignWithInsights campaign fetched))
                 (spend (campaignWithInsights campaign fetched))) \<and>
   (\<not> js_gt (spend (campaignWithInsights campaign fetched)) (Fin 0) \<longrightarrow>
      roas (campaignWithInsights campaign fetched) = Fin 0) \<and>
   (\<not> js_lt (revenue (campaignWithInsights campaign fetched)) (Fin 0) \<longrightarrow>
      \<not> js_lt (roas (campaignWithInsights campaign fetched)) (Fin 0))"
  by (cases fetched)
     (auto simp: campaignWithInsights_def campaignInsights_try_def Let_def js_gt_def
        js_div_not_negative split: option.splits)

theorem campaignWithInsights_roas_witness:
  "js_gt (spend (campaignWithInsights
       \<lparr>camp_id = ''1'', camp_name = ''A'', camp_status = ''ACTIVE''\<rparr>
       (InsightsData (Some [\<lparr>ins_campaign_name = Some ''Promo'', ins_spend = Some ''100'',
          ins_impressions = Some ''5000'', ins_ctr = Some ''2.0'', ins_frequency = Some ''1.5'',
          ins_actions = None,
          ins_action_values =
            Some [\<lparr>action_type = ''purchase'', action_value = Some ''250''\<rparr>]\<rparr>])))) (Fin 0) \<and>
   roas (campaignWithInsights
       \<lparr>camp_id = ''1'', camp_name = ''A'', camp_status = ''ACTIVE''\<rparr>
       (InsightsData (Some [\<lparr>ins_campaign_name = Some ''Promo'', ins_spend = Some ''100'',
          ins_impressions = Some ''5000'', ins_ctr = Some ''2.0'', ins_frequency = Some ''1.5'',
          ins_actions = None,
          ins_action_values =
            Some [\<lparr>action_type = ''purchase'', action_value = Some ''250''\<rparr>]\<rparr>])))
     = js_div (Fin 250) (Fin 100)"
proof -
  let ?c = "campaignWithInsights
       \<lparr>camp_id = ''1'', camp_name = ''A'', camp_status = ''ACTIVE''\<rparr>
       (InsightsData (Some [\<lparr>ins_campaign_name = Some ''Promo'', ins_spend = Some ''100'',
          ins_impressions = Some ''5000'', ins_ctr = Some ''2.0'', ins_frequency = Some ''1.5'',
          ins_actions = None,
          ins_action_values =
            Some [\<lparr>action_type = ''purchase'', action_value = Some ''250''\<rparr>]\<rparr>]))"
  have s: "spend ?c = Fin 100"
    by (simp add: campaignWithInsights_def campaignInsights_try_def first_row_def Let_def
        parse_defs)
  have r: "revenue ?c = Fin 250"
    by (simp add: campaignWithInsights_def campaignInsights_try_def first_row_def Let_def
        extractRevenue_def purchase_types_def parse_defs)
  have h: "js_gt (spend ?c) (Fin 0)" by (simp add: s js_gt_def)
  note t = campaignWithInsights_roas [THEN conjunct1, THEN mp, OF h]
  have "roas ?c = js_div (revenue ?c) (spend ?c)" by (rule t)
  with h s r show ?thesis by simp
qed

text \<open>
  Claim C2, as the specification states it, fails in its last part: a row with spend
  \<open>10\<close> whose purchase value is \<open>-5\<close> gives a roas below 0.
\<close>

theorem campaignWithInsights_roas_counterexample:
  "js_lt (roas (campaignWithInsights
       \<lparr>camp_id = ''1'', camp_name = ''A'', camp_status = ''ACTIVE''\<rparr>
       (InsightsData (Some [\<lparr>ins_campaign_name = None, ins_spend = Some ''10'',
          ins_impressions = Some ''100'', ins_ctr = Some ''1'', ins_frequency = Some ''1'',
          ins_actions = None,
          ins_action_values =
            Some [\<lparr>action_type = ''purchase'', action_value = Some ''-5''\<rparr>]\<rparr>]))))
     (Fin 0)"
  by (simp add: campaignWithInsights_def campaignInsights_try_def first_row_def Let_def js_gt_def
      extractRevenue_def purchase_types_def parse_defs)

text \<open>
  Claim C4 fails on the code. The fallback \<open>x || '0'\<close> replaces only a value that is
  missing or empty, before it is parsed; what \<open>parseFloat\<close> and \<open>parseInt\<close> make of a
  string that is not a number is NaN, and nothing replaces it afterwards. A row whose spend
  is the string \<open>abc\<close> and whose purchase action has the value \<open>n/a\<close> gives a record, without
  raising, whose spend and purchases are NaN and not 0.
\<close>

theorem unparseable_values_become_NaN:
  "campaignInsights_try \<lparr>camp_id = ''1'', camp_name = ''A'', camp_status = ''ACTIVE''\<rparr>
     (InsightsData (Some [\<lparr>ins_campaign_name = None, ins_spend = Some ''abc'',
        ins_impressions = Some ''100'', ins_ctr = Some ''1'', ins_frequency = Some ''1'',
        ins_actions = Some [\<lparr>action_type = ''purchase'', action_value = Some ''n/a''\<rparr>],
        ins_action_values = None\<rparr>]))
   = Inr \<lparr>name = ''A'', status = ''ACTIVE'', spend = NaN, impressions = Fin 100,
        ctr = Fin 1, frequency = Fin 1, purchases = NaN, addToCart = Fin 0,
        initiateCheckout = Fin 0, revenue = Fin 0, roas = Fin 0\<rparr> \<and>
   NaN \<noteq> Fin 0"
  by (simp add: campaignInsights_try_def first_row_def Let_def js_gt_def
      extractPurchases_def extractAction_def extractRevenue_def purchase_types_def
      add_to_cart_types_def initiate_checkout_types_def parse_defs)

section \<open>Properties of the account totals\<close>

subsection \<open>Sums that do not round\<close>

lemma round_half_even_of_int: "round_half_even (of_int m) = m"
  by (simp add: round_half_even_def)

lemma pow2_pos: "0 < pow2 e"
  by (simp add: pow2_def)

text \<open>\<open>ilog2\<close> is the exponent of the binade: \<open>2^k \<le> x < 2^(k+1)\<close> for \<open>k = ilog2 x\<close>.\<close>

lemma ilog2_bounds:
  assumes "0 < x"
  shows "pow2 (ilog2 x) \<le> x \<and> x < pow2 (ilog2 x + 1)"
proof (cases "1 \<le> x")
  case True
  define n where "n = \<lfloor>x\<rfloor>"
  have n1: "1 \<le> n" using True by (simp add: n_def)
  then have pos: "0 < n" by simp
  define k where "k = bitlen n - 1"
  have k0: "0 \<le> k" using pos by (simp add: k_def bitlen_alt_def)
  from bitlen_bounds [OF pos] have lo: "2 ^ nat k \<le> n" and hi: "n < 2 ^ nat (k + 1)"
    by (simp_all add: k_def)
  have il: "ilog2 x = k" using True by (simp add: ilog2_def n_def k_def)
  have "real_of_int (2 ^ nat k) \<le> real_of_int n" using lo by (simp only: of_int_le_iff)
  also have "\<dots> \<le> x" by (simp add: n_def)
  finally have a: "pow2 k \<le> x" using k0 by (simp add: pow2_def)
  from hi have "n + 1 \<le> 2 ^ nat (k + 1)" by simp
  then have "real_of_int (n + 1) \<le> real_of_int (2 ^ nat (k + 1))" by (simp only: of_int_le_iff)
  moreover have "x < real_of_int (n + 1)" by (simp add: n_def)
  ultimately have b: "x < pow2 (k + 1)" using k0 by (simp add: pow2_def)
  from a b il show ?thesis by simp
next
  case False
  define y where "y = 1 / x"
  have y1: "1 < y" using False assms by (simp add: y_def)
  define m where "m = \<lceil>y\<rceil> - 1"
  have m1: "1 \<le> m" using y1 unfolding m_def by linarith
  then have pos: "0 < m" by simp
  define b where "b = bitlen m"
  have b1: "1 \<le> b" using pos by (simp add: b_def bitlen_alt_def)
  from bitlen_bounds [OF pos] have lo: "2 ^ nat (b - 1) \<le> m" and hi: "m < 2 ^ nat b"
    by (simp_all add: b_def)
  have il: "ilog2 x = - b" using False by (simp add: ilog2_def y_def m_def b_def)
  have "y \<le> real_of_int (m + 1)" unfolding m_def by linarith
  also have "\<dots> \<le> real_of_int (2 ^ nat b)" using hi by (simp only: of_int_le_iff)
  finally have "y \<le> 2 ^ nat b" by simp
  then have a: "1 / 2 ^ nat b \<le> x"
    using assms by (simp add: y_def field_simps)
  have "real_of_int (2 ^ nat (b - 1)) \<le> real_of_int m" using lo by (simp only: of_int_le_iff)
  also have "\<dots> < y" unfolding m_def by linarith
  finally have "2 ^ nat (b - 1) < y" by simp
  then have c: "x < 1 / 2 ^ nat (b - 1)"
    using assms by (simp add: y_def field_simps)
  have p1: "pow2 (- b) = 1 / 2 ^ nat b" using b1 by (simp add: pow2_def)
  have p2: "pow2 (1 - b) = 1 / 2 ^ nat (b - 1)"
    using b1 by (cases "b = 1") (simp_all add: pow2_def)
  from a c show ?thesis by (simp add: il p1 p2)
qed

text \<open>A number that is a whole multiple of the quantum of its binade is its own rounding.\<close>

lemma round_double_exact:
  assumes "x \<noteq> 0" and "max (ilog2 \<bar>x\<bar> - 52) (- 1074) = e" and "x / pow2 e = of_int m"
    and "\<bar>x\<bar> < pow2 1024"
  shows "round_double x = Fin x"
proof -
  have "of_int m * pow2 e = x"
    using assms(3) pow2_pos [of e] by (simp add: field_simps)
  then have r: "of_int (round_half_even (x / pow2 e)) * pow2 e = x"
    by (simp add: assms(3) round_half_even_of_int)
  show ?thesis
    unfolding round_double_def Let_def assms(2) r using assms(1,4) by simp
qed

lemma round_double_nat:
  assumes "n \<le> 2 ^ 53"
  shows "round_double (real n) = Fin (real n)"
proof (cases "n = 0")
  case True
  then show ?thesis by (simp add: round_double_def)
next
  case False
  then have pos: "0 < int n" by simp
  define b where "b = bitlen (int n)"
  from bitlen_bounds [OF pos] have lo: "2 ^ nat (b - 1) \<le> int n"
    by (simp add: b_def)
  have b1: "1 \<le> b"
    using pos by (simp add: b_def bitlen_alt_def)
  have "int n < 2 ^ nat 54" using assms
    by (simp add: nat_less_iff)
  then have b54: "b \<le> 54" by (simp add: b_def bitlen_le_iff_power)
  have il: "ilog2 \<bar>real n\<bar> = b - 1"
    using False by (simp add: ilog2_def b_def)
  have e: "max (ilog2 \<bar>real n\<bar> - 52) (- 1074) = b - 53" using il b1 by simp
  have nz: "real n \<noteq> 0" using False by simp
  have "real n \<le> 2 ^ 53" using assms
    by (metis of_nat_le_iff of_nat_numeral of_nat_power)
  also have "\<dots> < pow2 1024" by (simp add: pow2_def)
  finally have small: "\<bar>real n\<bar> < pow2 1024" by simp
  show ?thesis
  proof (cases "b \<le> 53")
    case True
    define s where "s = nat (53 - b)"
    have p: "pow2 (b - 53) = 1 / 2 ^ s"
      using True by (cases "b = 53") (simp_all add: pow2_def s_def)
    have q: "real n / pow2 (b - 53) = of_int (int n * 2 ^ s)" by (simp add: p)
    show ?thesis by (rule round_double_exact [OF nz e q small])
  next
    case False
    with b54 have b: "b = 54" by simp
    with lo have "2 ^ 53 \<le> int n" by simp
    with assms have n: "n = 2 ^ 53"
      by (metis le_antisym of_nat_le_iff of_nat_numeral of_nat_power)
    have q: "real n / pow2 (b - 53) = of_int (2 ^ 52)"
      by (simp add: b n pow2_def)
    show ?thesis by (rule round_double_exact [OF nz e q small])
  qed
qed

lemma js_add_nat:
  "a + b \<le> 2 ^ 53 \<Longrightarrow> js_add (Fin (real a)) (Fin (real b)) = Fin (real (a + b))"
  using round_double_nat [of "a + b"] by simp

lemma foldl_js_add_nat:
  "a + sum_list ns \<le> 2 ^ 53 \<Longrightarrow>
   foldl js_add (Fin (real a)) (map (\<lambda>n. Fin (real n)) ns) = Fin (real (a + sum_list ns))"
proof (induction ns arbitrary: a)
  case Nil
  show ?case by simp
next
  case (Cons n ns)
  from Cons.prems have 1: "a + n \<le> 2 ^ 53" and 2: "(a + n) + sum_list ns \<le> 2 ^ 53"
    by simp_all
  have "foldl js_add (Fin (real a)) (map (\<lambda>n. Fin (real n)) (n # ns))
      = foldl js_add (js_add (Fin (real a)) (Fin (real n))) (map (\<lambda>n. Fin (real n)) ns)"
    by simp
  also have "\<dots> = foldl js_add (Fin (real (a + n))) (map (\<lambda>n. Fin (real n)) ns)"
    by (simp only: js_add_nat [OF 1])
  also have "\<dots> = Fin (real ((a + n) + sum_list ns))"
    by (rule Cons.IH [OF 2])
  finally show ?case by (simp add: add.assoc)
qed

lemma is_count_eq: "is_count x \<Longrightarrow> x = Fin (real (count_of x))"
  by (cases x) (auto simp: is_count_def count_of_def)

lemma is_count_or_zero: "is_count x \<Longrightarrow> js_or_zero x = x"
  by (cases x) (auto simp: is_count_def js_or_zero_def js_truthy_def)

lemma map_counts:
  "list_all (\<lambda>c. is_count (f c)) cs \<Longrightarrow>
   map f cs = map (\<lambda>n. Fin (real n)) (map (\<lambda>c. count_of (f c)) cs)"
  by (induction cs) (auto dest: is_count_eq)

text \<open>A field with an exact total sums to that total.\<close>

lemma sum_numbers_exact:
  assumes "exact_total f cs"
  shows "sum_numbers (map f cs) = Fin (real (sum_list (map (\<lambda>c. count_of (f c)) cs)))"
proof -
  from assms have all: "list_all (\<lambda>c. is_count (f c)) cs"
    and le: "0 + sum_list (map (\<lambda>c. count_of (f c)) cs) \<le> 2 ^ 53"
    by (simp_all add: exact_total_def)
  have "sum_numbers (map f cs)
      = foldl js_add (Fin (real 0)) (map (\<lambda>n. Fin (real n)) (map (\<lambda>c. count_of (f c)) cs))"
    by (simp only: sum_numbers_def map_counts [OF all]) simp
  also have "\<dots> = Fin (real (0 + sum_list (map (\<lambda>c. count_of (f c)) cs)))"
    by (rule foldl_js_add_nat [OF le])
  finally show ?thesis by simp
qed

lemma sum_list_filter_le: "sum_list (map g (filter P cs)) \<le> sum_list (map g cs)" for g :: "'a \<Rightarrow> nat"
  by (induction cs) auto

lemma exact_total_filter: "exact_total f cs \<Longrightarrow> exact_total f (filter P cs)"
  unfolding exact_total_def
  using sum_list_filter_le [of "\<lambda>c. count_of (f c)" P cs]
  by (auto simp: list_all_iff)

lemma sum_list_partition3:
  fixes g :: "Campaign \<Rightarrow> nat"
  assumes "\<forall>c\<in>set cs. status c \<in> {''ACTIVE'', ''PAUSED'', ''ARCHIVED''}"
  shows "sum_list (map g cs) =
     sum_list (map g (filter (\<lambda>c. status c = ''ACTIVE'') cs))
     + sum_list (map g (filter (\<lambda>c. status c = ''PAUSED'') cs))
     + sum_list (map g (filter (\<lambda>c. status c = ''ARCHIVED'') cs))"
  using assms by (induction cs) auto

text \<open>Each field of the accumulator of \<open>totals\<close> is the running sum of one field of the records.\<close>

lemma totals_fields_acc:
  "foldl (\<lambda>acc c.
        \<lparr>total_spend = js_add (total_spend acc) (spend c),
         total_impressions = js_add (total_impressions acc) (impressions c),
         total_revenue = js_add (total_revenue acc) (revenue c),
         total_purchases = js_add (total_purchases acc) (purchases c),
         total_addToCart = js_add (total_addToCart acc) (js_or_zero (addToCart c)),
         total_initiateCheckout =
           js_add (total_initiateCheckout acc) (js_or_zero (initiateCheckout c))\<rparr>) acc cs
   = \<lparr>total_spend = foldl js_add (total_spend acc) (map spend cs),
      total_impressions = foldl js_add (total_impressions acc) (map impressions cs),
      total_revenue = foldl js_add (total_revenue acc) (map revenue cs),
      total_purchases = foldl js_add (total_purchases acc) (map purchases cs),
      total_addToCart =
        foldl js_add (total_addToCart acc) (map (\<lambda>c. js_or_zero (addToCart c)) cs),
      total_initiateCheckout =
        foldl js_add (total_initiateCheckout acc)
          (map (\<lambda>c. js_or_zero (initiateCheckout c)) cs)\<rparr>"
  by (induction cs arbitrary: acc) simp_all

lemma totals_fields:
  "totals cs =
     \<lparr>total_spend = sum_numbers (map spend cs),
      total_impressions = sum_numbers (map impressions cs),
      total_revenue = sum_numbers (map revenue cs),
      total_purchases = sum_numbers (map purchases cs),
      total_addToCart = sum_numbers (map (\<lambda>c. js_or_zero (addToCart c)) cs),
      total_initiateCheckout = sum_numbers (map (\<lambda>c. js_or_zero (initiateCheckout c)) cs)\<rparr>"
  unfolding totals_def sum_numbers_def by (simp add: totals_fields_acc)

lemma or_zero_counts:
  "exact_total f cs \<Longrightarrow> map (\<lambda>c. js_or_zero (f c)) (filter P cs) = map f (filter P cs)"
  by (induction cs) (auto simp: exact_total_def is_count_or_zero)

text \<open>
  The partition of one field: with statuses among the three and an exact total, the sum
  over all records is the sum of the three sums by status.
\<close>

lemma field_partition:
  assumes st: "\<forall>c\<in>set cs. status c \<in> {''ACTIVE'', ''PAUSED'', ''ARCHIVED''}"
    and ex: "exact_total f cs"
  shows "sum_numbers (map f cs) =
     js_add (js_add (sum_numbers (map f (filter (\<lambda>c. status c = ''ACTIVE'') cs)))
                    (sum_numbers (map f (filter (\<lambda>c. status c = ''PAUSED'') cs))))
            (sum_numbers (map f (filter (\<lambda>c. status c = ''ARCHIVED'') cs)))"
proof -
  let ?g = "\<lambda>c. count_of (f c)"
  let ?A = "sum_list (map ?g (filter (\<lambda>c. status c = ''ACTIVE'') cs))"
  let ?P = "sum_list (map ?g (filter (\<lambda>c. status c = ''PAUSED'') cs))"
  let ?R = "sum_list (map ?g (filter (\<lambda>c. status c = ''ARCHIVED'') cs))"
  have total: "sum_list (map ?g cs) = ?A + ?P + ?R"
    by (rule sum_list_partition3 [OF st])
  from ex have le: "sum_list (map ?g cs) \<le> 2 ^ 53" by (simp add: exact_total_def)
  have ap: "?A + ?P \<le> 2 ^ 53" and apr: "(?A + ?P) + ?R \<le> 2 ^ 53"
    using total le by simp_all
  have "js_add (js_add (sum_numbers (map f (filter (\<lambda>c. status c = ''ACTIVE'') cs)))
                    (sum_numbers (map f (filter (\<lambda>c. status c = ''PAUSED'') cs))))
            (sum_numbers (map f (filter (\<lambda>c. status c = ''ARCHIVED'') cs)))
      = js_add (js_add (Fin (real ?A)) (Fin (real ?P))) (Fin (real ?R))"
    by (simp only: sum_numbers_exact [OF exact_total_filter [OF ex]])
  also have "\<dots> = Fin (real ((?A + ?P) + ?R))"
    by (simp only: js_add_nat [OF ap] js_add_nat [OF apr])
  also have "\<dots> = sum_numbers (map f cs)"
    by (simp only: sum_numbers_exact [OF ex] total)
  finally show ?thesis by simp
qed

lemma field_partition_or_zero:
  assumes st: "\<forall>c\<in>set cs. status c \<in> {''ACTIVE'', ''PAUSED'', ''ARCHIVED''}"
    and ex: "exact_total f cs"
  shows "sum_numbers (map (\<lambda>c. js_or_zero (f c)) cs) =
     js_add (js_add
        (sum_numbers (map (\<lambda>c. js_or_zero (f c)) (filter (\<lambda>c. status c = ''ACTIVE'') cs)))
        (sum_numbers (map (\<lambda>c. js_or_zero (f c)) (filter (\<lambda>c. status c = ''PAUSED'') cs))))
        (sum_numbers (map (\<lambda>c. js_or_zero (f c)) (filter (\<lambda>c. status c = ''ARCHIVED'') cs)))"
proof -
  have all: "map (\<lambda>c. js_or_zero (f c)) cs = map f cs"
    using or_zero_counts [OF ex, of "\<lambda>c. True"] by simp
  show ?thesis
    unfolding all or_zero_counts [OF ex] by (rule field_partition [OF st ex])
qed

text \<open>
  Claim C7, as the code has it. For every list of campaign records whose statuses are all
  among ACTIVE, PAUSED and ARCHIVED, each summed field whose values are non-negative
  integers adding up to at most \<open>2^53\<close> has, under the filter ALL, the sum of its totals
  under ACTIVE, under PAUSED and under ARCHIVED.
\<close>

theorem aggregate_partition:
  assumes "\<forall>c\<in>set records. status c \<in> {''ACTIVE'', ''PAUSED'', ''ARCHIVED''}"
  shows "(exact_total spend records \<longrightarrow>
           total_spend (aggregate records F_ALL) =
             js_add (js_add (total_spend (aggregate records F_ACTIVE))
                            (total_spend (aggregate records F_PAUSED)))
                    (total_spend (aggregate records F_ARCHIVED))) \<and>
         (exact_total impressions records \<longrightarrow>
           total_impressions (aggregate records F_ALL) =
             js_add (js_add (total_impressions (aggregate records F_ACTIVE))
                            (total_impressions (aggregate records F_PAUSED)))
                    (total_impressions (aggregate records F_ARCHIVED))) \<and>
         (exact_total revenue records \<longrightarrow>
           total_revenue (aggregate records F_ALL) =
             js_add (js_add (total_revenue (aggregate records F_ACTIVE))
                            (total_revenue (aggregate records F_PAUSED)))
                    (total_revenue (aggregate records F_ARCHIVED))) \<and>
         (exact_total purchases records \<longrightarrow>
           total_purchases (aggregate records F_ALL) =
             js_add (js_add (total_purchases (aggregate records F_ACTIVE))
                            (total_purchases (aggregate records F_PAUSED)))
                    (total_purchases (aggregate records F_ARCHIVED))) \<and>
         (exact_total addToCart records \<longrightarrow>
           total_addToCart (aggregate records F_ALL) =
             js_add (js_add (total_addToCart (aggregate records F_ACTIVE))
                            (total_addToCart (aggregate records F_PAUSED)))
                    (total_addToCart (aggregate records F_ARCHIVED))) \<and>
         (exact_total initiateCheckout records \<longrightarrow>
           total_initiateCheckout (aggregate records F_ALL) =
             js_add (js_add (total_initiateCheckout (aggregate records F_ACTIVE))
                            (total_initiateCheckout (aggregate records F_PAUSED)))
                    (total_initiateCheckout (aggregate records F_ARCHIVED)))"
  unfolding aggregate_def filteredCampaigns_def totals_fields
  using field_partition [OF assms, of spend] field_partition [OF assms, of impressions]
    field_partition [OF assms, of revenue] field_partition [OF assms, of purchases]
    field_partition_or_zero [OF assms, of addToCart]
    field_partition_or_zero [OF assms, of initiateCheckout]
  by simp

lemma round_double_small [simp]:
  "round_double 0 = Fin 0" "round_double 1 = Fin 1"
  "numeral k \<le> (2 ^ 53 :: nat) \<Longrightarrow> round_double (numeral k) = Fin (numeral k)"
  using round_double_nat [of 0] round_double_nat [of 1] round_double_nat [of "numeral k"]
  by simp_all

theorem aggregate_partition_witness:
  "total_impressions (aggregate [\<lparr>name = ''A'', status = ''ACTIVE'', spend = Fin 10.5,
        impressions = Fin 100, ctr = Fin 1, frequency = Fin 1, purchases = Fin 1,
        addToCart = Fin 2, initiateCheckout = Fin 1, revenue = Fin 30, roas = Fin 3\<rparr>,
      \<lparr>name = ''P'', status = ''PAUSED'', spend = Fin 5, impressions = Fin 50,
        ctr = Fin 1, frequency = Fin 1, purchases = Fin 0, addToCart = NaN,
        initiateCheckout = Fin 0, revenue = Fin 0, roas = Fin 0\<rparr>,
      \<lparr>name = ''R'', status = ''ARCHIVED'', spend = Fin 2, impressions = Fin 20,
        ctr = Fin 1, frequency = Fin 1, purchases = Fin 0, addToCart = Fin 0,
        initiateCheckout = Fin 0, revenue = Fin 0, roas = Fin 0\<rparr>] F_ALL) = Fin 170"
proof -
  let ?rs = "[\<lparr>name = ''A'', status = ''ACTIVE'', spend = Fin 10.5,
        impressions = Fin 100, ctr = Fin 1, frequency = Fin 1, purchases = Fin 1,
        addToCart = Fin 2, initiateCheckout = Fin 1, revenue = Fin 30, roas = Fin 3\<rparr>,
      \<lparr>name = ''P'', status = ''PAUSED'', spend = Fin 5, impressions = Fin 50,
        ctr = Fin 1, frequency = Fin 1, purchases = Fin 0, addToCart = NaN,
        initiateCheckout = Fin 0, revenue = Fin 0, roas = Fin 0\<rparr>,
      \<lparr>name = ''R'', status = ''ARCHIVED'', spend = Fin 2, impressions = Fin 20,
        ctr = Fin 1, frequency = Fin 1, purchases = Fin 0, addToCart = Fin 0,
        initiateCheckout = Fin 0, revenue = Fin 0, roas = Fin 0\<rparr>]"
  have h: "\<forall>c\<in>set ?rs. status c \<in> {''ACTIVE'', ''PAUSED'', ''ARCHIVED''}" by simp
  have x: "exact_total impressions ?rs"
    by (simp add: exact_total_def is_count_def count_of_def)
  have a: "total_impressions (aggregate ?rs F_ACTIVE) = Fin 100"
    by (simp add: aggregate_def filteredCampaigns_def totals_def)
  have p: "total_impressions (aggregate ?rs F_PAUSED) = Fin 50"
    by (simp add: aggregate_def filteredCampaigns_def totals_def)
  have r: "total_impressions (aggregate ?rs F_ARCHIVED) = Fin 20"
    by (simp add: aggregate_def filteredCampaigns_def totals_def)
  note t = aggregate_partition [OF h, THEN conjunct2, THEN conjunct1, THEN mp, OF x]
  have "total_impressions (aggregate ?rs F_ALL) = js_add (js_add (Fin 100) (Fin 50)) (Fin 20)"
    using t by (simp only: a p r)
  then show ?thesis by simp
qed

text \<open>
  Claim C7, as the specification states it, fails in three ways. A record whose status is
  DELETED counts in the totals under ALL and under none of the three status filters.
  With statuses among the three, rounding separates the two sides as soon as a sum is
  not exact. Spends of \<open>2^53\<close> (ACTIVE), 1 and 1 (both PAUSED) give \<open>2^53\<close> under ALL, where
  each 1 is rounded away, and \<open>2^53 + 2\<close> for the three totals added. Spends of 0.1
  (ACTIVE), 0.2 and 0.3 (both PAUSED), as the doubles nearest to these decimals, give
  0.6000000000000001 under ALL and 0.6 for the three totals added.
\<close>

lemma bitlen_above_2_53:
  "bitlen 9007199254740993 = 54" "bitlen 9007199254740994 = 54"
  using bitlen_twopow_add_eq [of 1 53] bitlen_twopow_add_eq [of 2 53] by simp_all

theorem aggregate_partition_counterexample:
  "total_spend (aggregate records_with_deleted F_ALL)
   \<noteq> js_add (js_add (total_spend (aggregate records_with_deleted F_ACTIVE))
                    (total_spend (aggregate records_with_deleted F_PAUSED)))
            (total_spend (aggregate records_with_deleted F_ARCHIVED)) \<and>
   total_spend (aggregate records_large_spend F_ALL)
   \<noteq> js_add (js_add (total_spend (aggregate records_large_spend F_ACTIVE))
                    (total_spend (aggregate records_large_spend F_PAUSED)))
            (total_spend (aggregate records_large_spend F_ARCHIVED)) \<and>
   total_spend (aggregate records_fractions F_ALL)
   \<noteq> js_add (js_add (total_spend (aggregate records_fractions F_ACTIVE))
                    (total_spend (aggregate records_fractions F_PAUSED)))
            (total_spend (aggregate records_fractions F_ARCHIVED))"
proof (intro conjI)
  show "total_spend (aggregate records_with_deleted F_ALL)
   \<noteq> js_add (js_add (total_spend (aggregate records_with_deleted F_ACTIVE))
                    (total_spend (aggregate records_with_deleted F_PAUSED)))
            (total_spend (aggregate records_with_deleted F_ARCHIVED))"
    by (simp add: records_with_deleted_def spend_only_def aggregate_def filteredCampaigns_def
        totals_def)
next
  have up1: "round_double 9007199254740993 = Fin 9007199254740992"
    by (simp add: round_double_def Let_def ilog2_def bitlen_above_2_53 pow2_def
        round_half_even_def)
  have up2: "round_double 9007199254740994 = Fin 9007199254740994"
    by (simp add: round_double_def Let_def ilog2_def bitlen_above_2_53 pow2_def
        round_half_even_def)
  have all: "total_spend (aggregate records_large_spend F_ALL) = Fin 9007199254740992"
    by (simp add: records_large_spend_def spend_only_def aggregate_def filteredCampaigns_def
        totals_def up1)
  have three: "js_add (js_add (total_spend (aggregate records_large_spend F_ACTIVE))
                    (total_spend (aggregate records_large_spend F_PAUSED)))
            (total_spend (aggregate records_large_spend F_ARCHIVED)) = Fin 9007199254740994"
    by (simp add: records_large_spend_def spend_only_def aggregate_def filteredCampaigns_def
        totals_def up2)
  show "total_spend (aggregate records_large_spend F_ALL)
   \<noteq> js_add (js_add (total_spend (aggregate records_large_spend F_ACTIVE))
                    (total_spend (aggregate records_large_spend F_PAUSED)))
            (total_spend (aggregate records_large_spend F_ARCHIVED))"
    unfolding all three by simp
next
  have all: "total_spend (aggregate records_fractions F_ALL)
      = Fin (5404319552844596 / 9007199254740992)"
    by (simp add: records_fractions_def spend_only_def aggregate_def filteredCampaigns_def
        totals_def round_double_def Let_def ilog2_def pow2_def round_half_even_def
        compute_bitlen)
  have three: "js_add (js_add (total_spend (aggregate records_fractions F_ACTIVE))
                    (total_spend (aggregate records_fractions F_PAUSED)))
            (total_spend (aggregate records_fractions F_ARCHIVED))
      = Fin (5404319552844595 / 9007199254740992)"
    by (simp add: records_fractions_def spend_only_def aggregate_def filteredCampaigns_def
        totals_def round_double_def Let_def ilog2_def pow2_def round_half_even_def
        compute_bitlen)
  show "total_spend (aggregate records_fractions F_ALL)
   \<noteq> js_add (js_add (total_spend (aggregate records_fractions F_ACTIVE))
                    (total_spend (aggregate records_fractions F_PAUSED)))
            (total_spend (aggregate records_fractions F_ARCHIVED))"
    unfolding all three by simp
qed

section \<open>Properties of the advisory routes\<close>

text \<open>
  When both models fail, the analyze route answers with the error text built from the
  failure of the last model, and with nothing else.
\<close>

lemma analyze_all_fail:
  assumes "\<forall>m\<in>set models. backend_fails (backend m)"
  shows "\<exists>err. POST_analyze SignedIn (Body (Some (c # cs))) True backend
           = TextResponse 200 (gemini_error err)"
proof -
  have 1: "backend_fails (backend ''gemini-3.1-pro-preview'')"
    and 2: "backend_fails (backend ''gemini-3-flash-preview'')"
    using assms by (simp_all add: models_def)
  show ?thesis
    using 1 2
    by (auto simp: POST_analyze_def models_def backend_fails_def
        split: backend_result.splits stream_end.splits)
qed

text \<open>The chat route does so when both calls throw.\<close>

lemma chat_all_calls_throw:
  assumes "backend ''gemini-3.1-pro-preview'' = CallThrows e1"
    and "backend ''gemini-3-flash-preview'' = CallThrows e2"
  shows "POST_chat SignedIn (Body (Some (m # ms))) True backend
           = TextResponse 200 (gemini_error e2)"
  using assms by (simp add: POST_chat_def models_def)

text \<open>
  On the two backends of \<open>failing_backends\<close> the analyze route, which awaits the whole
  text inside its \<open>try\<close>, answers with the error text of the last model alone.
\<close>

lemma analyze_on_failing_backends:
  "POST_analyze SignedIn (Body (Some [c])) True failing_backends
     = TextResponse 200 (gemini_error (JsError ''Error'' (Some ''quota'')))"
  by (simp add: POST_analyze_def models_def failing_backends_def)

text \<open>
  Claim C8 fails on the chat route. Both backends of \<open>failing_backends\<close> fail, the first
  in the middle of its stream after the chunk \<open>Hola\<close>. The chat route has returned the
  first model's stream by then: its output is that chunk followed by the failure of the
  stream, the second model is never tried, and no error text is produced.
\<close>

theorem chat_stream_failure_not_recovered:
  "backend_fails (failing_backends ''gemini-3.1-pro-preview'') \<and>
   backend_fails (failing_backends ''gemini-3-flash-preview'') \<and>
   POST_chat SignedIn (Body (Some [(User, ''hola'')])) True failing_backends
     = StreamResponse [''Hola''] (EndError (JsError ''Error'' (Some ''overloaded'')))"
  by (simp add: POST_chat_def models_def failing_backends_def backend_fails_def)

section \<open>Properties of the chat client\<close>

lemma read_loop_reject:
  "read_loop aid ft st (pre @ ReadRejects e # post) =
     (case read_loop aid ft st pre of (st', Waiting) \<Rightarrow> (st', Threw e) | r \<Rightarrow> r)"
proof (induction pre arbitrary: ft st)
  case Nil
  show ?case by simp
next
  case (Cons ev pre)
  show ?case by (cases ev) (simp_all add: Cons.IH)
qed

lemma send_finish_abort:
  "chatMessages (send_finish aid
      (case p of (st', Waiting) \<Rightarrow> (st', Threw (JsError ''AbortError'' msg)) | r \<Rightarrow> r))
   = chatMessages (send_finish aid p)"
proof (cases p)
  case (Pair st' ex)
  then show ?thesis by (cases ex) (simp_all add: send_finish_def)
qed

text \<open>
  The handler built for a cancellation: should a read, or the fetch, reject with an error
  named \<open>AbortError\<close>, the chat messages stay as they were at that moment, whatever reads
  had arrived before and whatever would arrive after.
\<close>

lemma abort_error_is_silent:
  "chatMessages (sendChatMessage uid aid um
      (FetchResponse ok (Some (pre @ ReadRejects (JsError ''AbortError'' msg) # post))) st)
   = chatMessages (sendChatMessage uid aid um (FetchResponse ok (Some pre)) st) \<and>
   chatMessages (sendChatMessage uid aid um (FetchRejects (JsError ''AbortError'' msg)) st)
   = chatMessages (sendChatMessage uid aid um FetchPending st)"
proof
  show "chatMessages (sendChatMessage uid aid um
      (FetchResponse ok (Some (pre @ ReadRejects (JsError ''AbortError'' msg) # post))) st)
   = chatMessages (sendChatMessage uid aid um (FetchResponse ok (Some pre)) st)"
    by (simp add: sendChatMessage_def Let_def send_try_def read_loop_reject send_finish_abort)
  show "chatMessages (sendChatMessage uid aid um (FetchRejects (JsError ''AbortError'' msg)) st)
   = chatMessages (sendChatMessage uid aid um FetchPending st)"
    by (simp add: sendChatMessage_def Let_def send_try_def send_finish_def)
qed


end
